theory Spec2Isabelle
  imports Complex_Main
begin

section \<open>Python, numpy and pandas primitives used by the forecasting code\<close>

text \<open>
  Exceptions are values. The repository raises only \<open>ValueError\<close> itself; \<open>IndexError\<close>
  and \<open>KeyError\<close> come from indexing, \<open>OverflowError\<close> from date arithmetic that leaves
  the range of \<open>datetime\<close>, and \<open>ExternalError\<close> stands for whatever an external
  collaborator (HTTP client, file system, database driver) raises.
  Floating point numbers are abstracted to reals; the one special value the metrics can
  produce from finite inputs, NaN, is kept as a value of its own in \<open>pyfloat\<close>.
\<close>

datatype exn =
    ValueError string
  | IndexError string
  | KeyError string
  | OverflowError string
  | ExternalError string

datatype pyfloat = NaN | Fin real

text \<open>
  A \<open>pd.Series\<close> is a list of (index label, value) pairs in positional order.
\<close>

type_synonym 'i series = "('i \<times> real) list"

definition slice_bound :: "nat \<Rightarrow> int \<Rightarrow> nat" where
  \<comment> \<open>a slice bound: a negative bound counts from the end, and every bound is clamped\<close>
  "slice_bound n i = (if i < 0 then nat (i + int n) else min n (nat i))"

definition iloc_slice :: "'a list \<Rightarrow> int option \<Rightarrow> int option \<Rightarrow> 'a list" where
  \<comment> \<open>\<open>s.iloc[start:stop]\<close>; \<open>None\<close> is an omitted bound\<close>
  "iloc_slice xs start stop =
     (let n = length xs;
          lo = (case start of None \<Rightarrow> 0 | Some i \<Rightarrow> slice_bound n i);
          hi = (case stop of None \<Rightarrow> n | Some j \<Rightarrow> slice_bound n j)
      in drop lo (take hi xs))"

definition iloc_at :: "'a list \<Rightarrow> int \<Rightarrow> exn + 'a" where
  \<comment> \<open>\<open>s.iloc[i]\<close>: raises IndexError out of range\<close>
  "iloc_at xs i =
     (let n = int (length xs); j = (if i < 0 then i + n else i)
      in if 0 \<le> j \<and> j < n then Inr (xs ! nat j)
         else Inl (IndexError ''single positional indexer is out-of-bounds''))"

definition tail :: "'a list \<Rightarrow> int \<Rightarrow> 'a list" where
  \<comment> \<open>pandas: \<open>if n == 0: return self.iloc[0:0]\<close>, else \<open>self.iloc[-n:]\<close>\<close>
  "tail xs n = (if n = 0 then iloc_slice xs (Some 0) (Some 0) else iloc_slice xs (Some (- n)) None)"

definition np_repeat :: "'a \<Rightarrow> int \<Rightarrow> exn + 'a list" where
  \<comment> \<open>\<open>np.repeat(x, k)\<close> for a scalar \<open>x\<close>: a negative count is a ValueError\<close>
  "np_repeat x k =
     (if k < 0 then Inl (ValueError ''negative dimensions are not allowed'')
      else Inr (replicate (nat k) x))"

definition pd_Series :: "real list \<Rightarrow> 'i list \<Rightarrow> exn + 'i series" where
  \<comment> \<open>\<open>pd.Series(data, index=index)\<close> for array data: the lengths must match\<close>
  "pd_Series data index =
     (if length data \<noteq> length index
      then Inl (ValueError ''Length of values does not match length of index'')
      else Inr (zip index data))"

definition pd_concat :: "'a list list \<Rightarrow> 'a list" where
  "pd_concat parts = concat parts"

definition range_len :: "int \<Rightarrow> int \<Rightarrow> int \<Rightarrow> nat" where
  \<comment> \<open>the number of elements of \<open>range(lo, hi, step)\<close>, \<open>step \<noteq> 0\<close>\<close>
  "range_len lo hi step =
     (if 0 < step then (if lo < hi then nat ((hi - lo - 1) div step + 1) else 0)
      else (if hi < lo then nat ((lo - hi - 1) div (- step) + 1) else 0))"

definition py_range :: "int \<Rightarrow> int \<Rightarrow> int \<Rightarrow> exn + int list" where
  "py_range lo hi step =
     (if step = 0 then Inl (ValueError ''range() arg 3 must not be zero'')
      else Inr (map (\<lambda>k. lo + int k * step) [0..<range_len lo hi step]))"

section \<open>src/forecasting/models.py\<close>

record 'i ForecastResult =
  y_true :: "'i series"
  y_pred :: "'i series"

definition too_short :: string where
  \<comment> \<open>the message of the guard, with its quotes (character 0x27) around \<open>horizon\<close>\<close>
  "too_short = ''Series must contain at least '' @ [CHR 0x27] @ ''horizon'' @ [CHR 0x27] @ '' values''"

definition naive_forecast :: "'i series \<Rightarrow> int \<Rightarrow> exn + 'i ForecastResult" where
  "naive_forecast series horizon =
     (let yt = tail series horizon in
      if yt = [] then Inl (ValueError too_short)
      else
        (case iloc_at series (- 1) of
           Inl e \<Rightarrow> Inl e
         | Inr lastv \<Rightarrow>
            (case np_repeat (snd lastv) horizon of
               Inl e \<Rightarrow> Inl e
             | Inr reps \<Rightarrow>
                (case pd_Series reps (map fst yt) of
                   Inl e \<Rightarrow> Inl e
                 | Inr yp \<Rightarrow> Inr \<lparr>y_true = yt, y_pred = yp\<rparr>))))"

definition train_test_split :: "'a list \<Rightarrow> int \<Rightarrow> exn + ('a list \<times> 'a list)" where
  "train_test_split series test_size =
     (if test_size \<le> 0 then Inl (ValueError ''test_size must be positive'')
      else if int (length series) \<le> test_size
        then Inl (ValueError ''test_size must be smaller than the series length'')
      else Inr (iloc_slice series None (Some (- test_size)),
                iloc_slice series (Some (- test_size)) None))"

record RollingWindowConfig =
  window_size :: int
  step_size :: int

text \<open>
  \<open>rolling_forecast\<close> is a generator. Its model is what a consumer sees when it
  exhausts the generator: the results yielded, in order, and the exception that ended the
  iteration, if one did (\<open>None\<close> is the normal end).
\<close>

fun rolling_items ::
  "'i series \<Rightarrow> int \<Rightarrow> RollingWindowConfig \<Rightarrow> int list \<Rightarrow> 'i ForecastResult list \<times> exn option"
where
  "rolling_items series horizon config [] = ([], None)"
| "rolling_items series horizon config (start # rest) =
     (let window = iloc_slice series (Some (start - window_size config)) (Some start);
          actual = iloc_slice series (Some start) (Some (start + horizon))
      in case naive_forecast (pd_concat [window, actual]) horizon of
           Inl e \<Rightarrow> ([], Some e)
         | Inr r \<Rightarrow>
            (case rolling_items series horizon config rest of
               (rs, stop) \<Rightarrow> (r # rs, stop)))"

definition rolling_forecast ::
  "'i series \<Rightarrow> int \<Rightarrow> RollingWindowConfig \<Rightarrow> 'i ForecastResult list \<times> exn option"
where
  "rolling_forecast series horizon config =
     (case py_range (window_size config) (int (length series) - horizon + 1) (step_size config) of
        Inl e \<Rightarrow> ([], Some e)
      | Inr starts \<Rightarrow> rolling_items series horizon config starts)"

subsection \<open>Metrics of a forecast\<close>

text \<open>
  pandas aligns two series on their index labels before it combines them. Every
  \<open>ForecastResult\<close> the repository builds carries one index on both series
  (\<open>naive_forecast\<close> builds \<open>y_pred\<close> on \<open>y_true.index\<close>), and on equal indexes the
  alignment is the identity: the operations below are the positionwise ones of that case.
  \<open>np.mean\<close> of an empty selection is NaN.
\<close>

definition np_mean :: "real list \<Rightarrow> pyfloat" where
  "np_mean xs = (if xs = [] then NaN else Fin (sum_list xs / real (length xs)))"

definition np_sqrt :: "pyfloat \<Rightarrow> pyfloat" where
  "np_sqrt x = (case x of NaN \<Rightarrow> NaN | Fin v \<Rightarrow> (if v < 0 then NaN else Fin (sqrt v)))"

definition fl_times :: "pyfloat \<Rightarrow> real \<Rightarrow> pyfloat" where
  "fl_times x c = (case x of NaN \<Rightarrow> NaN | Fin v \<Rightarrow> Fin (v * c))"

definition series_sub :: "'i series \<Rightarrow> 'i series \<Rightarrow> 'i series" where
  "series_sub a b = map (\<lambda>((i, x), (j, y)). (i, x - y)) (zip a b)"

definition series_div :: "'i series \<Rightarrow> 'i series \<Rightarrow> 'i series" where
  \<comment> \<open>only ever applied to divisors selected as non-zero\<close>
  "series_div a b = map (\<lambda>((i, x), (j, y)). (i, x / y)) (zip a b)"

definition bool_index :: "'i series \<Rightarrow> bool list \<Rightarrow> 'i series" where
  \<comment> \<open>\<open>s[msk]\<close> for a boolean selection on the same index\<close>
  "bool_index s msk = map fst (filter snd (zip s msk))"

definition rmse :: "'i ForecastResult \<Rightarrow> pyfloat" where
  "rmse r = np_sqrt (np_mean (map (\<lambda>(i, d). d ^ 2) (series_sub (y_true r) (y_pred r))))"

definition mae :: "'i ForecastResult \<Rightarrow> pyfloat" where
  "mae r = np_mean (map (\<lambda>(i, d). \<bar>d\<bar>) (series_sub (y_true r) (y_pred r)))"

definition mape :: "'i ForecastResult \<Rightarrow> pyfloat" where
  "mape r =
     (let msk = map (\<lambda>(i, x). x \<noteq> 0) (y_true r) in
      fl_times
        (np_mean (map (\<lambda>(i, q). \<bar>q\<bar>)
           (series_div (series_sub (bool_index (y_true r) msk) (bool_index (y_pred r) msk))
                       (bool_index (y_true r) msk))))
        100)"

definition same_index :: "'i ForecastResult \<Rightarrow> bool" where
  \<comment> \<open>the invariant of a \<open>ForecastResult\<close>: both series carry one ordered index\<close>
  "same_index r = (map fst (y_pred r) = map fst (y_true r))"

definition rolling_starts :: "nat \<Rightarrow> int \<Rightarrow> RollingWindowConfig \<Rightarrow> int list" where
  \<comment> \<open>the start positions \<open>range(window_size, n - horizon + 1, step_size)\<close> of a series of
      length \<open>n\<close>, for a positive step\<close>
  "rolling_starts n h cfg =
     map (\<lambda>k. window_size cfg + int k * step_size cfg)
       [0..<range_len (window_size cfg) (int n - h + 1) (step_size cfg)]"

section \<open>src/pipeline.py\<close>

definition collect_metrics :: "'i ForecastResult \<Rightarrow> exn + (string \<rightharpoonup> pyfloat)" where
  "collect_metrics result =
     (case iloc_at (y_pred result) (- 1) of
        Inl e \<Rightarrow> Inl e
      | Inr lp \<Rightarrow>
         (let latest = snd lp in
          case (if 1 < length (y_true result)
                then map_sum id snd (iloc_at (y_true result) (- 2))
                else Inr latest) of
            Inl e \<Rightarrow> Inl e
          | Inr previous \<Rightarrow>
             (let delta_pct = (if previous \<noteq> 0 then ((latest - previous) / previous) * 100 else 0)
              in Inr [''latest'' \<mapsto> Fin latest,
                      ''previous'' \<mapsto> Fin previous,
                      ''delta_pct'' \<mapsto> Fin delta_pct,
                      ''rmse'' \<mapsto> rmse result,
                      ''mae'' \<mapsto> mae result,
                      ''mape'' \<mapsto> mape result])))"

subsection \<open>Data source, shaping and orchestration\<close>

text \<open>
  A calendar date is its proleptic Gregorian ordinal (\<open>date.toordinal()\<close>); a point in
  time is the number of seconds since midnight of ordinal 0, so that the start of day of
  date \<open>d\<close> is \<open>86400 * d\<close> and one hour is 3600. The dates of Python run from ordinal 1
  (0001-01-01) to ordinal 3652059 (9999-12-31); arithmetic that leaves this range raises
  \<open>OverflowError\<close>, as does a \<open>timedelta\<close> of more than 999999999 days.
\<close>

record price_row =
  DateTime :: int
  SpotPrice :: real
  Source :: "string option"

text \<open>A \<open>pd.DataFrame\<close> is the list of its rows, each with its index label.\<close>

type_synonym 'r frame = "(nat \<times> 'r) list"


datatype rng = SeededRng int | EntropyRng int

text \<open>
  What the libraries compute, as parameters. \<open>pd.to_datetime\<close> and \<open>pd.to_numeric\<close>
  with \<open>errors="coerce"\<close> work on a whole column (pandas may infer one format for the
  column): given the column's cells (\<open>None\<close> is a cell the record does not have), they
  give the coerced cell at each position (\<open>None\<close> is NaT/NaN). \<open>sort_values\<close> is not a
  stable sort: \<open>tie_rank\<close> gives, from the column of keys, the rank by which the library
  leaves rows of equal key. \<open>std_normal\<close> is the \<open>k\<close>-th standard normal variate a numpy
  generator in a given state draws, and \<open>format_float\<close> is Python's fixed-point
  formatting (\<open>format(x, '.nf')\<close>).
\<close>

record 'c lib =
  to_datetime :: "'c option list \<Rightarrow> nat \<Rightarrow> int option"
  to_numeric :: "'c option list \<Rightarrow> nat \<Rightarrow> real option"
  tie_rank :: "int list \<Rightarrow> nat \<Rightarrow> nat"
  std_normal :: "rng \<Rightarrow> nat \<Rightarrow> real"
  format_float :: "nat \<Rightarrow> pyfloat \<Rightarrow> string"

text \<open>
  The environment of one run: the process-wide settings, the clock (\<open>today\<close> is the
  ordinal of \<open>date.today()\<close>, between 1 and 3652059), the entropy of the
  operating system, and what each external collaborator does when the run calls it
  (an exception it raises, or its result).
\<close>

record 'c env =
  today :: int
  os_entropy :: int
  nordpool_api_key :: "string option"
  slack_token :: "string option"
  notion_token :: "string option"
  notion_database_id :: "string option"
  github_token :: "string option"
  github_repo :: "string option"
  fetch_spot_prices :: "exn + (string \<times> 'c) list list"
  post_message :: "exn option"
  has_upload_file :: bool
  upload_file :: "exn option"
  render_forecast_plot :: "exn + string"
  record_forecast_run :: "exn option"
  log_forecast :: "exn option"
  commit_file :: "exn option"
  commit_text :: "exn option"



definition truthy :: "string option \<Rightarrow> bool" where
  \<comment> \<open>the truth value of an optional string: \<open>None\<close> and the empty string are false\<close>
  "truthy v = (case v of None \<Rightarrow> False | Some s \<Rightarrow> s \<noteq> [])"





definition default_rng :: "'c env \<Rightarrow> int option \<Rightarrow> rng" where
  \<comment> \<open>\<open>np.random.default_rng(seed)\<close>: without a seed the state comes from the operating system\<close>
  "default_rng env seed = (case seed of None \<Rightarrow> EntropyRng (os_entropy env) | Some s \<Rightarrow> SeededRng s)"

definition rng_normal :: "'c lib \<Rightarrow> rng \<Rightarrow> real \<Rightarrow> real \<Rightarrow> nat \<Rightarrow> real list" where
  \<comment> \<open>\<open>rng.normal(loc, scale, size)\<close>\<close>
  "rng_normal lib g loc scale n = map (\<lambda>k. loc + scale * std_normal lib g k) [0..<n]"

definition np_linspace :: "real \<Rightarrow> real \<Rightarrow> nat \<Rightarrow> real list" where
  "np_linspace start stop num =
     (if num = 1 then [start]
      else map (\<lambda>k. start + real k * ((stop - start) / real (num - 1))) [0..<num])"

definition datetime_min :: int where
  \<comment> \<open>0001-01-01 00:00:00\<close>
  "datetime_min = 86400"

definition datetime_max :: int where
  \<comment> \<open>9999-12-31 23:59:59, in whole seconds\<close>
  "datetime_max = 86400 * 3652059 + 86399"

definition timedelta_hours :: "int \<Rightarrow> exn + int" where
  \<comment> \<open>\<open>timedelta(hours=k)\<close>, in seconds\<close>
  "timedelta_hours k =
     (if k div 24 < - 999999999 \<or> 999999999 < k div 24
      then Inl (OverflowError ''days must have magnitude <= 999999999'')
      else Inr (3600 * k))"

definition datetime_add :: "int \<Rightarrow> int \<Rightarrow> exn + int" where
  \<comment> \<open>\<open>datetime + timedelta\<close>\<close>
  "datetime_add t delta =
     (if t + delta < datetime_min \<or> datetime_max < t + delta
      then Inl (OverflowError ''date value out of range'')
      else Inr (t + delta))"

definition datetime_sub :: "int \<Rightarrow> int \<Rightarrow> exn + int" where
  \<comment> \<open>\<open>datetime - timedelta\<close>\<close>
  "datetime_sub t delta = datetime_add t (- delta)"

fun comprehension :: "(exn + 'a) list \<Rightarrow> exn + 'a list" where
  \<comment> \<open>a list comprehension: the elements are evaluated in order, the first exception ends it\<close>
  "comprehension [] = Inr []"
| "comprehension (x # xs) =
     (case x of
        Inl e \<Rightarrow> Inl e
      | Inr v \<Rightarrow> (case comprehension xs of Inl e \<Rightarrow> Inl e | Inr vs \<Rightarrow> Inr (v # vs)))"

definition generate_synthetic_frame ::
  "'c lib \<Rightarrow> 'c env \<Rightarrow> int \<Rightarrow> int \<Rightarrow> exn + price_row frame"
where
  "generate_synthetic_frame lib env target_date horizon =
     (let hours = max (horizon + 48) 72 in
      case timedelta_hours (hours - 1) of
        Inl e \<Rightarrow> Inl e
      | Inr reach \<Rightarrow>
         (case datetime_sub (86400 * target_date) reach of
            Inl e \<Rightarrow> Inl e
          | Inr start \<Rightarrow>
             (case comprehension
                     (map (\<lambda>i. case timedelta_hours (int i) of
                                  Inl e \<Rightarrow> Inl e
                                | Inr step \<Rightarrow> datetime_add start step) [0..<nat hours]) of
                Inl e \<Rightarrow> Inl e
              | Inr timestamps \<Rightarrow>
                 (let g = default_rng env (Some target_date);
                      base = map (\<lambda>i. 60 + 5 * sin (2 * pi * real i / 24)) [0..<nat hours];
                      trend = np_linspace (- 2) 2 (nat hours);
                      noise = rng_normal lib g 0 1.5 (nat hours);
                      prices = map (\<lambda>(b, t, n). b + t + n) (zip base (zip trend noise))
                  in Inr (map (\<lambda>(i, ts, p).
                                 (i, \<lparr>DateTime = ts, SpotPrice = p, Source = Some ''synthetic''\<rparr>))
                            (zip [0..<length timestamps] (zip timestamps prices)))))))"

definition columns :: "(string \<times> 'c) list list \<Rightarrow> string set" where
  \<comment> \<open>the columns of \<open>pd.DataFrame(records)\<close>: every key of every record\<close>
  "columns raw = set (concat (map (map fst) raw))"

definition column :: "(string \<times> 'c) list list \<Rightarrow> string \<Rightarrow> 'c option list" where
  \<comment> \<open>one column of \<open>pd.DataFrame(records)\<close>; a record without the key has a missing cell\<close>
  "column raw name = map (\<lambda>r. map_of r name) raw"

definition sort_values :: "'c lib \<Rightarrow> price_row list \<Rightarrow> price_row list" where
  \<comment> \<open>\<open>frame.sort_values("DateTime")\<close>: ascending in the key, rows of equal key in the
      order the library leaves them\<close>
  "sort_values lib rows =
     map snd
       (sort_key (\<lambda>(p, r). DateTime r)
          (sort_key (\<lambda>(p, r). tie_rank lib (map DateTime rows) p)
             (zip [0..<length rows] rows)))"

definition load_price_frame ::
  "'c lib \<Rightarrow> 'c env \<Rightarrow> int \<Rightarrow> exn + (price_row frame \<times> string)"
where
  \<comment> \<open>the live feed's exception is caught; one of the synthetic generator is not\<close>
  "load_price_frame lib env horizon =
     (let target_date = today env in
      if \<not> truthy (nordpool_api_key env)
      then map_sum id (\<lambda>f. (f, ''synthetic'')) (generate_synthetic_frame lib env target_date horizon)
      else
        (case fetch_spot_prices env of
           Inl e \<Rightarrow>
             map_sum id (\<lambda>f. (f, ''synthetic''))
               (generate_synthetic_frame lib env target_date horizon)
         | Inr raw_prices \<Rightarrow>
            (if {''DateTime'', ''SpotPrice''} \<subseteq> columns raw_prices
             then
               (let dates = column raw_prices ''DateTime'';
                    values = column raw_prices ''SpotPrice'';
                    coerced = map (\<lambda>k. (to_datetime lib dates k, to_numeric lib values k))
                                [0..<length raw_prices];
                    kept = concat (map (\<lambda>(d, p). case (d, p) of
                               (Some ts, Some v) \<Rightarrow> [\<lparr>DateTime = ts, SpotPrice = v, Source = None\<rparr>]
                             | _ \<Rightarrow> []) coerced);
                    sorted_rows = sort_values lib kept;
                    frame = zip [0..<length sorted_rows] sorted_rows
                in if horizon < int (length frame) then Inr (frame, ''api'')
                   else map_sum id (\<lambda>f. (f, ''synthetic''))
                          (generate_synthetic_frame lib env target_date horizon))
             else map_sum id (\<lambda>f. (f, ''synthetic''))
                    (generate_synthetic_frame lib env target_date horizon))))"





















text \<open>
  The frame the synthetic generator returns when its date arithmetic stays in range, in
  closed form, named for the statements below.
\<close>

definition synthetic_rows :: "'c lib \<Rightarrow> int \<Rightarrow> int \<Rightarrow> price_row frame" where
  "synthetic_rows lib d h =
     map (\<lambda>k. (k, \<lparr>DateTime = 86400 * d - 3600 * (max (h + 48) 72 - 1) + 3600 * int k,
                     SpotPrice = 60 + 5 * sin (2 * pi * real k / 24)
                       + (- 2 + real k * (4 / real (nat (max (h + 48) 72) - 1)))
                       + 1.5 * std_normal lib (SeededRng d) k,
                     Source = Some ''synthetic''\<rparr>))
       [0..<nat (max (h + 48) 72)]"

section \<open>Example data\<close>

definition ten :: "nat series" where
  \<comment> \<open>\<open>pd.Series(range(10))\<close>, the series of \<open>tests/test_naive_forecast.py\<close>\<close>
  "ten = [(0, 0), (1, 1), (2, 2), (3, 3), (4, 4), (5, 5), (6, 6), (7, 7), (8, 8), (9, 9)]"

definition five :: "nat series" where
  "five = [(0, 1), (1, 2), (2, 3), (3, 4), (4, 5)]"

text \<open>A library stub and an environment with no credential configured.\<close>

definition lib0 :: "string lib" where
  "lib0 = \<lparr>to_datetime = (\<lambda>cells k. None), to_numeric = (\<lambda>cells k. None),
           tie_rank = (\<lambda>ks p. p),
           std_normal = (\<lambda>g k. 0), format_float = (\<lambda>n x. ''0.00'')\<rparr>"

definition env0 :: "string env" where
  "env0 = \<lparr>today = 739000, os_entropy = 1,
           nordpool_api_key = None, slack_token = None,
           notion_token = None, notion_database_id = None,
           github_token = None, github_repo = None,
           fetch_spot_prices = Inl (ExternalError ''connection refused''),
           post_message = None, has_upload_file = False, upload_file = None,
           render_forecast_plot = Inr ''/repo/reports/plots/forecast_20240501_050000.png'',
           record_forecast_run = None, log_forecast = None,
           commit_file = None, commit_text = None\<rparr>"

text \<open>
  Environments in which the chart cannot be written, in which every sink is configured,
  and in which every configured sink fails.
\<close>

definition env_render_fails :: "string env" where
  "env_render_fails = env0\<lparr>render_forecast_plot := Inl (ExternalError ''No space left on device'')\<rparr>"

definition env_configured :: "string env" where
  "env_configured = env0\<lparr>slack_token := Some ''xoxb'', has_upload_file := True,
      notion_token := Some ''secret'', notion_database_id := Some ''db'',
      github_token := Some ''ghp'', github_repo := Some ''owner/name''\<rparr>"

definition env_sinks_fail :: "string env" where
  "env_sinks_fail = env_configured\<lparr>
      upload_file := Some (ExternalError ''upload failed''),
      record_forecast_run := Some (ExternalError ''database is locked''),
      log_forecast := Some (ExternalError ''401 Unauthorized''),
      commit_file := Some (ExternalError ''422 Unprocessable''),
      commit_text := None\<rparr>"

section \<open>Properties of the baseline forecaster\<close>

lemma tail_in_range:
  "1 \<le> h \<Longrightarrow> h \<le> int (length xs) \<Longrightarrow> tail xs h = drop (length xs - nat h) xs"
  by (simp add: tail_def iloc_slice_def slice_bound_def nat_diff_distrib' add.commute)

lemma tail_beyond: "int (length xs) < h \<Longrightarrow> tail xs h = xs"
  by (auto simp add: tail_def iloc_slice_def slice_bound_def Let_def)

lemma tail_Nil: "tail [] h = []"
  by (simp add: tail_def iloc_slice_def)

lemma tail_zero: "tail xs 0 = []"
  by (simp add: tail_def iloc_slice_def slice_bound_def)

lemma iloc_at_last: "xs \<noteq> [] \<Longrightarrow> iloc_at xs (- 1) = Inr (last xs)"
  by (cases xs rule: rev_cases) (auto simp add: iloc_at_def nth_append)

lemma naive_forecast_in_range:
  assumes "1 \<le> h" and "h \<le> int (length s)"
  shows "naive_forecast s h =
    Inr \<lparr>y_true = drop (length s - nat h) s,
         y_pred = zip (map fst (drop (length s - nat h) s)) (replicate (nat h) (snd (last s)))\<rparr>"
proof -
  have ne: "s \<noteq> []" using assms by auto
  have len: "length (drop (length s - nat h) s) = nat h" using assms by simp
  have dne: "drop (length s - nat h) s \<noteq> []" using len assms by auto
  show ?thesis
    using assms ne len dne
    by (simp add: naive_forecast_def tail_in_range iloc_at_last np_repeat_def pd_Series_def Let_def)
qed

lemma naive_forecast_nonpos:
  assumes "h \<le> 0"
  shows "\<exists>msg. naive_forecast s h = Inl (ValueError msg)"
proof (cases "tail s h = []")
  case True
  then show ?thesis by (simp add: naive_forecast_def)
next
  case False
  then have neg: "h < 0" using assms tail_zero[of s] by (cases "h = 0") auto
  from False have "s \<noteq> []" using tail_Nil by blast
  then show ?thesis using False neg
    by (simp add: naive_forecast_def iloc_at_last np_repeat_def Let_def)
qed

lemma naive_forecast_beyond:
  assumes "int (length s) < h"
  shows "\<exists>msg. naive_forecast s h = Inl (ValueError msg)"
proof (cases "s = []")
  case True
  then show ?thesis by (simp add: naive_forecast_def tail_def iloc_slice_def)
next
  case False
  then show ?thesis using assms
    by (simp add: naive_forecast_def tail_beyond iloc_at_last np_repeat_def pd_Series_def Let_def)
qed

text \<open>
  What the forecaster computes within its range: the prediction repeats the last element
  of the whole series, which is the last actual of the holdout window itself, so the
  history before the window does not reach the forecast.
\<close>

lemma naive_forecast_repeats_last:
  assumes "1 \<le> horizon" and "horizon \<le> int (length s)"
  shows "\<exists>r. naive_forecast s horizon = Inr r
           \<and> map snd (y_pred r) = replicate (nat horizon) (snd (last s))
           \<and> last s = last (y_true r)"
  using assms by (simp add: naive_forecast_in_range)

lemma naive_forecast_ignores_history:
  assumes "1 \<le> horizon" and "horizon \<le> int (length s)"
  shows "naive_forecast s horizon = naive_forecast (drop (length s - nat horizon) s) horizon"
proof -
  let ?t = "drop (length s - nat horizon) s"
  have lt: "length ?t = nat horizon" using assms by simp
  have ne: "?t \<noteq> []" using lt assms by auto
  have "naive_forecast ?t horizon =
    Inr \<lparr>y_true = drop (length ?t - nat horizon) ?t,
         y_pred = zip (map fst (drop (length ?t - nat horizon) ?t))
                    (replicate (nat horizon) (snd (last ?t)))\<rparr>"
    using assms lt by (intro naive_forecast_in_range) simp_all
  moreover have "drop (length ?t - nat horizon) ?t = ?t" using lt by simp
  moreover have "last ?t = last s" using ne by (simp add: last_drop)
  ultimately show ?thesis using naive_forecast_in_range[OF assms] by simp
qed

text \<open>
  C1. The claim: for every series \<open>s\<close> and every horizon with \<open>1 \<le> horizon \<le> len(s)\<close>,
  \<open>naive_forecast(s, horizon).predicted\<close> is constant, of length \<open>horizon\<close>, and equal to
  the last value observed before the holdout window, \<open>s[-horizon-1]\<close>. The code does not
  do this: it repeats \<open>series.iloc[-1]\<close>. On the series \<open>0, 1, ..., 9\<close> with horizon 3 the
  prediction is \<open>9, 9, 9\<close>, while the value immediately before the holdout window is 6.
\<close>

theorem naive_forecast_not_value_before_holdout:
  "map snd (y_pred (projr (naive_forecast ten 3))) = [9, 9, 9]
   \<and> iloc_at ten (- 3 - 1) = Inr (6, 6)
   \<and> map snd (y_pred (projr (naive_forecast ten 3)))
        \<noteq> replicate 3 (snd (projr (iloc_at ten (- 3 - 1))))"
  by (simp add: naive_forecast_in_range ten_def iloc_at_def numeral_3_eq_3)

text \<open>
  C2 (as the code has it). \<open>naive_forecast(s, horizon)\<close> raises, and what it raises is a
  \<open>ValueError\<close>, exactly when \<open>horizon > len(s)\<close> or \<open>horizon \<le> 0\<close>; it returns a result
  exactly when \<open>1 \<le> horizon \<le> len(s)\<close>. In particular every call with
  \<open>0 < len(s) < horizon\<close> raises rather than returning a result.
\<close>

theorem naive_forecast_raises_iff:
  "(\<exists>msg. naive_forecast s horizon = Inl (ValueError msg))
      = (horizon \<le> 0 \<or> int (length s) < horizon)
   \<and> (\<exists>r. naive_forecast s horizon = Inr r) = (1 \<le> horizon \<and> horizon \<le> int (length s))"
proof (cases "horizon \<le> 0 \<or> int (length s) < horizon")
  case True
  then have "\<exists>msg. naive_forecast s horizon = Inl (ValueError msg)"
    using naive_forecast_nonpos naive_forecast_beyond by blast
  then show ?thesis using True by auto
next
  case False
  then have "1 \<le> horizon" and "horizon \<le> int (length s)" by auto
  from naive_forecast_in_range[OF this] show ?thesis using False by auto
qed

theorem naive_forecast_raises_iff_witness:
  "(\<exists>msg. naive_forecast ten 11 = Inl (ValueError msg)) \<and> (\<exists>r. naive_forecast ten 10 = Inr r)"
  using naive_forecast_raises_iff [of ten 11] naive_forecast_raises_iff [of ten 10]
  by (simp add: ten_def)

text \<open>
  C2 as stated fails: with horizon 0 the guard on the empty tail raises although the
  series does not have fewer than \<open>horizon\<close> observations.
\<close>

theorem naive_forecast_zero_horizon_raises:
  "naive_forecast [(0::nat, 1)] 0 = Inl (ValueError too_short)
   \<and> \<not> (int (length [(0::nat, 1::real)]) < 0)"
  by (simp add: naive_forecast_def tail_zero)

text \<open>
  C5. For every series \<open>s\<close> and integer \<open>test_size\<close>, \<open>train_test_split(s, test_size)\<close>
  raises (a \<open>ValueError\<close>) if and only if \<open>test_size \<le> 0\<close> or \<open>test_size \<ge> len(s)\<close>;
  otherwise it returns \<open>(train, test)\<close> where \<open>test\<close> is the trailing \<open>test_size\<close>
  elements of \<open>s\<close>, \<open>train\<close> is everything before, and \<open>train\<close> followed by \<open>test\<close>
  is \<open>s\<close>.
\<close>

theorem train_test_split_spec:
  "(\<exists>msg. train_test_split s test_size = Inl (ValueError msg))
      = (test_size \<le> 0 \<or> int (length s) \<le> test_size)
   \<and> (isl (train_test_split s test_size) = (test_size \<le> 0 \<or> int (length s) \<le> test_size))
   \<and> (0 < test_size \<and> test_size < int (length s) \<longrightarrow>
        (\<exists>train test. train_test_split s test_size = Inr (train, test)
           \<and> test = drop (length s - nat test_size) s
           \<and> train = take (length s - nat test_size) s
           \<and> int (length test) = test_size
           \<and> train @ test = s))"
  by (auto simp add: train_test_split_def iloc_slice_def slice_bound_def Let_def
        nat_diff_distrib' add.commute)

theorem train_test_split_spec_witness:
  "train_test_split [0::int, 1, 2, 3, 4, 5, 6, 7, 8, 9] 3 = Inr ([0, 1, 2, 3, 4, 5, 6], [7, 8, 9])
   \<and> isl (train_test_split [0::int, 1, 2] 3) \<and> isl (train_test_split [0::int, 1, 2] 0)"
  using train_test_split_spec [of "[0::int, 1, 2, 3, 4, 5, 6, 7, 8, 9]" 3]
    train_test_split_spec [of "[0::int, 1, 2]" 3] train_test_split_spec [of "[0::int, 1, 2]" 0]
  by simp

text \<open>
  C9. For every series \<open>s\<close> and horizon with \<open>1 \<le> horizon \<le> len(s)\<close>, the
  \<open>ForecastResult\<close> returned by \<open>naive_forecast\<close> satisfies
  \<open>len(actual) == len(predicted) == horizon\<close>, and both sequences carry the same ordered
  index (that of the last \<open>horizon\<close> observations of \<open>s\<close>).
\<close>

theorem naive_forecast_lengths:
  assumes "1 \<le> horizon" and "horizon \<le> int (length s)"
  shows "\<exists>r. naive_forecast s horizon = Inr r
           \<and> int (length (y_true r)) = horizon
           \<and> int (length (y_pred r)) = horizon
           \<and> map fst (y_pred r) = map fst (y_true r)
           \<and> y_true r = drop (length s - nat horizon) s"
  using assms by (simp add: naive_forecast_in_range)

theorem naive_forecast_lengths_witness:
  "\<exists>r. naive_forecast ten 3 = Inr r
           \<and> int (length (y_true r)) = 3
           \<and> int (length (y_pred r)) = 3
           \<and> map fst (y_pred r) = map fst (y_true r)
           \<and> y_true r = drop (length ten - nat 3) ten"
  using naive_forecast_lengths [of 3 ten] by (simp add: ten_def)

section \<open>Properties of the rolling evaluator\<close>

lemma int_le_div_iff:
  fixes k b s :: int
  assumes "0 < s"
  shows "(k \<le> b div s) = (k * s \<le> b)"
proof
  assume "k \<le> b div s"
  then have "k * s \<le> (b div s) * s" using assms by (simp add: mult_right_mono)
  moreover have "(b div s) * s + b mod s = b" by simp
  moreover have "0 \<le> b mod s" using assms by simp
  ultimately show "k * s \<le> b" by linarith
next
  assume "k * s \<le> b"
  then have "(k * s) div s \<le> b div s" using assms by (rule zdiv_mono1)
  then show "k \<le> b div s" using assms by simp
qed

lemma range_len_pos_iff:
  assumes "0 < step"
  shows "(k < range_len lo hi step) = (lo + int k * step < hi)"
proof (cases "lo < hi")
  case False
  have "0 \<le> int k * step" using assms by simp
  then have "\<not> lo + int k * step < hi" using False by linarith
  then show ?thesis using False assms by (simp add: range_len_def)
next
  case True
  have "(int k \<le> (hi - lo - 1) div step) = (int k * step \<le> hi - lo - 1)"
    using assms by (rule int_le_div_iff)
  moreover have "0 \<le> (hi - lo - 1) div step"
    using True assms by (simp add: pos_imp_zdiv_nonneg_iff)
  ultimately show ?thesis using True assms by (auto simp add: range_len_def nat_less_iff)
qed

lemma py_range_pos:
  assumes "0 < step"
  shows "py_range lo hi step = Inr (map (\<lambda>k. lo + int k * step) [0..<range_len lo hi step])"
  using assms by (simp add: py_range_def)

lemma py_range_pos_set:
  assumes "0 < step" and "py_range lo hi step = Inr starts"
  shows "(p \<in> set starts) = (\<exists>k::nat. p = lo + int k * step \<and> p < hi)"
  using assms by (auto simp add: py_range_def range_len_pos_iff)

lemma iloc_slice_length:
  assumes "0 \<le> a" and "a \<le> b" and "b \<le> int (length xs)"
  shows "iloc_slice xs (Some a) (Some b) = take (nat (b - a)) (drop (nat a) xs)"
proof -
  have "slice_bound (length xs) a = nat a" "slice_bound (length xs) b = nat b"
    using assms by (auto simp add: slice_bound_def)
  moreover have "drop (nat a) (take (nat b) xs) = take (nat (b - a)) (drop (nat a) xs)"
    using assms by (simp add: drop_take nat_diff_distrib)
  ultimately show ?thesis by (simp add: iloc_slice_def)
qed

lemma rolling_slice:
  assumes "1 \<le> w" and "1 \<le> h" and "w \<le> start" and "start \<le> int (length s) - h"
  shows "pd_concat [iloc_slice s (Some (start - w)) (Some start),
                    iloc_slice s (Some start) (Some (start + h))]
         = take (nat (w + h)) (drop (nat (start - w)) s)"
proof -
  have a: "iloc_slice s (Some (start - w)) (Some start) = take (nat w) (drop (nat (start - w)) s)"
    using assms iloc_slice_length[of "start - w" start s] by simp
  have b: "iloc_slice s (Some start) (Some (start + h)) = take (nat h) (drop (nat start) s)"
    using assms iloc_slice_length[of start "start + h" s] by simp
  have "nat start = nat w + nat (start - w)" using assms by simp
  then have c: "drop (nat start) s = drop (nat w) (drop (nat (start - w)) s)"
    by (simp add: add.commute)
  have "take (nat (w + h)) (drop (nat (start - w)) s)
        = take (nat w) (drop (nat (start - w)) s) @ take (nat h) (drop (nat w) (drop (nat (start - w)) s))"
    using assms by (simp add: nat_add_distrib take_add)
  then show ?thesis using a b c by (simp add: pd_concat_def)
qed

lemma rolling_step_result:
  assumes "1 \<le> w" and "1 \<le> h" and "w \<le> start" and "start \<le> int (length s) - h"
  shows "\<exists>r. naive_forecast (pd_concat [iloc_slice s (Some (start - w)) (Some start),
                    iloc_slice s (Some start) (Some (start + h))]) h = Inr r
           \<and> y_true r = take (nat h) (drop (nat start) s)"
proof -
  let ?sl = "take (nat (w + h)) (drop (nat (start - w)) s)"
  have len: "length ?sl = nat (w + h)" using assms by auto
  have "naive_forecast ?sl h = Inr \<lparr>y_true = drop (length ?sl - nat h) ?sl,
         y_pred = zip (map fst (drop (length ?sl - nat h) ?sl)) (replicate (nat h) (snd (last ?sl)))\<rparr>"
    using assms len by (intro naive_forecast_in_range) auto
  moreover have "drop (length ?sl - nat h) ?sl = take (nat h) (drop (nat start) s)"
  proof -
    have "length ?sl - nat h = nat w" using len assms by (simp add: nat_add_distrib)
    moreover have "drop (nat w) ?sl = take (nat h) (drop (nat w + nat (start - w)) s)"
      using assms by (simp add: drop_take nat_add_distrib)
    moreover have "nat w + nat (start - w) = nat start" using assms by simp
    ultimately show ?thesis by simp
  qed
  ultimately show ?thesis using rolling_slice[OF assms] by simp
qed

lemma rolling_items_all:
  assumes "1 \<le> window_size cfg" and "1 \<le> h"
    and "\<forall>p \<in> set starts. window_size cfg \<le> p \<and> p \<le> int (length s) - h"
  shows "snd (rolling_items s h cfg starts) = None
     \<and> map Inr (fst (rolling_items s h cfg starts))
         = map (\<lambda>start. naive_forecast (pd_concat
               [iloc_slice s (Some (start - window_size cfg)) (Some start),
                iloc_slice s (Some start) (Some (start + h))]) h) starts
     \<and> map y_true (fst (rolling_items s h cfg starts))
         = map (\<lambda>start. take (nat h) (drop (nat start) s)) starts"
  using assms(3)
proof (induction starts)
  case Nil
  then show ?case by simp
next
  case (Cons p ps)
  then have p: "window_size cfg \<le> p" "p \<le> int (length s) - h" by auto
  from rolling_step_result[OF assms(1) assms(2) p] obtain r where
    r: "naive_forecast (pd_concat [iloc_slice s (Some (p - window_size cfg)) (Some p),
                    iloc_slice s (Some p) (Some (p + h))]) h = Inr r"
       "y_true r = take (nat h) (drop (nat p) s)" by blast
  from Cons have ih: "snd (rolling_items s h cfg ps) = None
     \<and> map Inr (fst (rolling_items s h cfg ps))
         = map (\<lambda>start. naive_forecast (pd_concat
               [iloc_slice s (Some (start - window_size cfg)) (Some start),
                iloc_slice s (Some start) (Some (start + h))]) h) ps
     \<and> map y_true (fst (rolling_items s h cfg ps))
         = map (\<lambda>start. take (nat h) (drop (nat start) s)) ps" by simp
  obtain rs stop where rs: "rolling_items s h cfg ps = (rs, stop)"
    by (cases "rolling_items s h cfg ps")
  show ?case using r ih rs by (simp add: Let_def)
qed

text \<open>
  C7 (as the code has it). For every series, every horizon \<open>\<ge> 1\<close> and every
  \<open>RollingWindowConfig\<close> with positive \<open>window_size\<close> and \<open>step_size\<close>,
  \<open>rolling_forecast\<close> yields one \<open>ForecastResult\<close> per start position stepping from
  \<open>window_size\<close> to \<open>len(series) - horizon\<close> inclusive by \<open>step_size\<close>, none of them
  raising; each is the naive forecast of the window \<open>[start - window_size, start)\<close>
  concatenated with the next \<open>horizon\<close> actuals, its \<open>actual\<close> being
  \<open>series[start : start + horizon]\<close>; the number of results is determined by
  \<open>len(series)\<close>, \<open>horizon\<close> and the config.
\<close>

theorem rolling_forecast_yields:
  assumes "1 \<le> window_size cfg" and "1 \<le> step_size cfg" and "1 \<le> horizon"
  shows "py_range (window_size cfg) (int (length s) - horizon + 1) (step_size cfg)
           = Inr (rolling_starts (length s) horizon cfg)
     \<and> (\<forall>p. (p \<in> set (rolling_starts (length s) horizon cfg))
            = (\<exists>k::nat. p = window_size cfg + int k * step_size cfg \<and> p \<le> int (length s) - horizon))
     \<and> snd (rolling_forecast s horizon cfg) = None
     \<and> map Inr (fst (rolling_forecast s horizon cfg))
         = map (\<lambda>start. naive_forecast (pd_concat
               [iloc_slice s (Some (start - window_size cfg)) (Some start),
                iloc_slice s (Some start) (Some (start + horizon))]) horizon)
             (rolling_starts (length s) horizon cfg)
     \<and> map y_true (fst (rolling_forecast s horizon cfg))
         = map (\<lambda>start. take (nat horizon) (drop (nat start) s)) (rolling_starts (length s) horizon cfg)
     \<and> length (fst (rolling_forecast s horizon cfg))
         = range_len (window_size cfg) (int (length s) - horizon + 1) (step_size cfg)"
proof -
  let ?starts = "rolling_starts (length s) horizon cfg"
  have pr: "py_range (window_size cfg) (int (length s) - horizon + 1) (step_size cfg) = Inr ?starts"
    using assms(2) by (simp add: py_range_def rolling_starts_def)
  have mem: "(p \<in> set ?starts)
            = (\<exists>k::nat. p = window_size cfg + int k * step_size cfg \<and> p \<le> int (length s) - horizon)" for p
    using py_range_pos_set[OF _ pr, of p] assms(2) by auto
  have bounds: "\<forall>p \<in> set ?starts. window_size cfg \<le> p \<and> p \<le> int (length s) - horizon"
  proof
    fix p assume "p \<in> set ?starts"
    then obtain k :: nat where k: "p = window_size cfg + int k * step_size cfg" "p \<le> int (length s) - horizon"
      using mem by blast
    have "0 \<le> int k * step_size cfg" using assms(2) by simp
    then show "window_size cfg \<le> p \<and> p \<le> int (length s) - horizon" using k by simp
  qed
  have rf: "rolling_forecast s horizon cfg = rolling_items s horizon cfg ?starts"
    by (simp add: rolling_forecast_def pr)
  from rolling_items_all[OF assms(1) assms(3) bounds]
  have items: "snd (rolling_items s horizon cfg ?starts) = None"
    "map Inr (fst (rolling_items s horizon cfg ?starts))
         = map (\<lambda>start. naive_forecast (pd_concat
               [iloc_slice s (Some (start - window_size cfg)) (Some start),
                iloc_slice s (Some start) (Some (start + horizon))]) horizon) ?starts"
    "map y_true (fst (rolling_items s horizon cfg ?starts))
         = map (\<lambda>start. take (nat horizon) (drop (nat start) s)) ?starts"
    by simp_all
  have "length (map y_true (fst (rolling_items s horizon cfg ?starts))) = length ?starts"
    using items(3) by simp
  then have len: "length (fst (rolling_forecast s horizon cfg))
         = range_len (window_size cfg) (int (length s) - horizon + 1) (step_size cfg)"
    using rf by (simp add: rolling_starts_def)
  show ?thesis using pr mem items len rf by simp
qed

theorem rolling_forecast_yields_witness:
  "snd (rolling_forecast five 1 \<lparr>window_size = 2, step_size = 2\<rparr>) = None
   \<and> length (fst (rolling_forecast five 1 \<lparr>window_size = 2, step_size = 2\<rparr>)) = 2
   \<and> map y_true (fst (rolling_forecast five 1 \<lparr>window_size = 2, step_size = 2\<rparr>))
        = [[(2, 3)], [(4, 5)]]
   \<and> rolling_starts (length five) 1 \<lparr>window_size = 2, step_size = 2\<rparr> = [2, 4]"
  using rolling_forecast_yields [of "\<lparr>window_size = 2, step_size = 2\<rparr>" 1 five]
  by (simp add: five_def range_len_def rolling_starts_def upt_rec numeral_2_eq_2)

text \<open>
  C7 as stated fails for a horizon that is not positive: with horizon 0 there are start
  positions (1 and 2 on a series of two values), yet the first step already raises, since
  the naive forecast finds an empty tail.
\<close>

theorem rolling_forecast_zero_horizon_raises:
  "rolling_forecast [(0::nat, 1), (1, 2)] 0 \<lparr>window_size = 1, step_size = 1\<rparr>
      = ([], Some (ValueError too_short))
   \<and> py_range 1 (int (length [(0::nat, 1::real), (1, 2)]) - 0 + 1) 1 = Inr [1, 2]"
  by (simp add: rolling_forecast_def py_range_def range_len_def upt_rec naive_forecast_def
      tail_zero Let_def)

section \<open>Properties of the metrics\<close>

lemma bool_index_all_false: "\<forall>b \<in> set msk. \<not> b \<Longrightarrow> bool_index s msk = []"
  by (auto simp add: bool_index_def filter_empty_conv dest: set_zip_rightD)

text \<open>
  C10. For every \<open>ForecastResult\<close> (two series on one index) whose actual sequence is
  non-empty and consists entirely of zeros, \<open>mape()\<close> is NaN: the selection of the
  non-zero actuals is empty, and the mean of an empty selection is NaN.
\<close>

theorem mape_all_zero_is_nan:
  assumes "same_index r" and "y_true r \<noteq> []" and "\<forall>v \<in> set (map snd (y_true r)). v = 0"
  shows "mape r = NaN"
proof -
  have "\<forall>b \<in> set (map (\<lambda>(i, x). x \<noteq> 0) (y_true r)). \<not> b" using assms(3) by auto
  then have "bool_index (y_true r) (map (\<lambda>(i, x). x \<noteq> 0) (y_true r)) = []"
    by (rule bool_index_all_false)
  then show ?thesis
    by (simp add: mape_def Let_def series_div_def series_sub_def np_mean_def fl_times_def)
qed

theorem mape_all_zero_is_nan_witness:
  "mape \<lparr>y_true = [(0::nat, 0), (1, 0)], y_pred = [(0, 0), (1, 0)]\<rparr> = NaN
   \<and> naive_forecast [(0::nat, 0), (1, 0)] 2 = Inr \<lparr>y_true = [(0::nat, 0), (1, 0)], y_pred = [(0, 0), (1, 0)]\<rparr>"
  using mape_all_zero_is_nan [of "\<lparr>y_true = [(0::nat, 0), (1, 0)], y_pred = [(0, 0), (1, 0)]\<rparr>"]
  by (simp add: same_index_def naive_forecast_in_range numeral_2_eq_2)

lemma iloc_at_second_last:
  "1 < length xs \<Longrightarrow> iloc_at xs (- 2) = Inr (xs ! (length xs - 2))"
  by (auto simp add: iloc_at_def Let_def nat_diff_distrib' intro!: arg_cong[where f="nth xs"])

text \<open>
  C4 (as the code has it). In the metrics bundle computed from a \<open>ForecastResult\<close>,
  \<open>latest\<close> is the last predicted value; \<open>previous\<close> is the second-to-last actual
  observation of the holdout window, \<open>y_true[-2]\<close> (an observation inside the forecast
  horizon), falling back to \<open>latest\<close> itself when the holdout has fewer than two
  observations (then \<open>delta_pct = 0\<close>); and \<open>delta_pct\<close> is
  \<open>(latest - previous) / previous * 100\<close>, with 0 when \<open>previous == 0\<close>.
\<close>

theorem collect_metrics_previous_delta:
  assumes "y_pred r \<noteq> []"
  shows "\<exists>m latest previous. collect_metrics r = Inr m
      \<and> latest = snd (last (y_pred r))
      \<and> previous = (if 1 < length (y_true r) then snd (y_true r ! (length (y_true r) - 2)) else latest)
      \<and> m ''latest'' = Some (Fin latest)
      \<and> m ''previous'' = Some (Fin previous)
      \<and> m ''delta_pct'' = Some (Fin (if previous = 0 then 0 else (latest - previous) / previous * 100))
      \<and> (length (y_true r) \<le> 1 \<longrightarrow> m ''delta_pct'' = Some (Fin 0))"
  using assms
  by (simp add: collect_metrics_def iloc_at_last iloc_at_second_last Let_def)

theorem collect_metrics_previous_delta_witness:
  "\<exists>m. collect_metrics (projr (naive_forecast five 2)) = Inr m
      \<and> m ''latest'' = Some (Fin 5)
      \<and> m ''previous'' = Some (Fin 4)
      \<and> m ''delta_pct'' = Some (Fin 25)"
  using collect_metrics_previous_delta [of "projr (naive_forecast five 2)"]
  by (simp add: naive_forecast_in_range five_def numeral_2_eq_2)

text \<open>
  C4 as stated fails: for the forecast of \<open>1, 2, 3, 4, 5\<close> with horizon 2 the holdout is
  \<open>4, 5\<close>, the last observation strictly before it is 3, and \<open>previous\<close> is 4. With
  horizon 1 the observation before the holdout, 4, is available, and \<open>previous\<close> falls
  back to \<open>latest = 5\<close>.
\<close>

theorem collect_metrics_previous_inside_holdout:
  "y_true (projr (naive_forecast five 2)) = [(3, 4), (4, 5)]
   \<and> iloc_at five (- 2 - 1) = Inr (2, 3)
   \<and> projr (collect_metrics (projr (naive_forecast five 2))) ''previous'' = Some (Fin 4)
   \<and> projr (collect_metrics (projr (naive_forecast five 2))) ''previous'' \<noteq> Some (Fin 3)
   \<and> iloc_at five (- 1 - 1) = Inr (3, 4)
   \<and> projr (collect_metrics (projr (naive_forecast five 1))) ''previous'' = Some (Fin 5)"
  by (simp add: naive_forecast_in_range five_def numeral_2_eq_2 collect_metrics_def iloc_at_def)

section \<open>Properties of the data source and of the shaping step\<close>

lemma length_np_linspace: "length (np_linspace a b n) = n"
  by (simp add: np_linspace_def)

lemma comprehension_all:
  "(\<And>x. x \<in> set xs \<Longrightarrow> g x = Inr (f x)) \<Longrightarrow> comprehension (map g xs) = Inr (map f xs)"
  by (induction xs) simp_all

lemma comprehension_length: "comprehension xs = Inr ys \<Longrightarrow> length ys = length xs"
  by (induction xs arbitrary: ys) (auto split: sum.splits)


lemma timedelta_hours_error: "timedelta_hours k = Inl e \<Longrightarrow> \<exists>msg. e = OverflowError msg"
  by (auto simp add: timedelta_hours_def split: if_splits)



lemma fit_lower:
  fixes H d :: int
  assumes "H - 1 \<le> 24 * (d - 1)" and "0 \<le> i"
  shows "\<not> 86400 * d - 3600 * (H - 1) + 3600 * i < 86400"
proof -
  have "3600 * (H - 1) \<le> 3600 * (24 * (d - 1))" using assms(1) by (rule mult_left_mono) simp
  then have "3600 * (H - 1) \<le> 86400 * d - 86400" by (simp add: algebra_simps)
  moreover have "0 \<le> 3600 * i" using assms(2) by simp
  ultimately show ?thesis by simp
qed

lemma fit_upper:
  fixes H d :: int
  assumes "d \<le> 3652059" and "i \<le> H - 1"
  shows "\<not> 315537983999 < 86400 * d - 3600 * (H - 1) + 3600 * i"
proof -
  have "86400 * d \<le> 86400 * 3652059" using assms(1) by (rule mult_left_mono) simp
  moreover have "3600 * i \<le> 3600 * (H - 1)" using assms(2) by (rule mult_left_mono) simp
  ultimately show ?thesis by simp
qed

lemma generate_synthetic_frame_in_range:
  assumes "d \<le> 3652059" and "max (h + 48) 72 - 1 \<le> 24 * (d - 1)"
  shows "generate_synthetic_frame lib env d h = Inr (synthetic_rows lib d h)"
proof -
  define H where "H = max (h + 48) 72"
  define start where "start = 86400 * d - 3600 * (H - 1)"
  have big: "72 \<le> H" unfolding H_def by (rule max.cobounded2)
  have fit: "H - 1 \<le> 24 * (d - 1)" using assms(2) unfolding H_def .
  have div1: "0 \<le> (H - 1) div 24" using big by (simp add: pos_imp_zdiv_nonneg_iff)
  have "(H - 1) div 24 \<le> (24 * (d - 1)) div 24" using fit by (rule zdiv_mono1) simp
  then have div2: "(H - 1) div 24 \<le> 999999999" using assms(1) by simp
  have reach: "timedelta_hours (H - 1) = Inr (3600 * (H - 1))"
    using div1 div2 by (simp add: timedelta_hours_def)
  have lo: "\<not> 86400 * d - 3600 * (H - 1) < 86400"
    using fit_lower[OF fit, of 0] by simp
  have hi: "\<not> 315537983999 < 86400 * d - 3600 * (H - 1)"
    using fit_upper[OF assms(1), of 0 H] big by simp
  have st: "datetime_sub (86400 * d) (3600 * (H - 1)) = Inr start"
    using lo hi
    by (simp add: datetime_sub_def datetime_add_def datetime_min_def datetime_max_def start_def)
  have step: "(case timedelta_hours (int i) of
                 Inl e \<Rightarrow> Inl e
               | Inr step \<Rightarrow> datetime_add start step) = Inr (start + 3600 * int i)"
    if "i \<in> set [0..<nat H]" for i
  proof -
    have i: "int i \<le> H - 1" using that by auto
    have "0 \<le> int i div 24" by (simp add: pos_imp_zdiv_nonneg_iff)
    moreover have "int i div 24 \<le> (H - 1) div 24" using i by (rule zdiv_mono1) simp
    ultimately have td: "timedelta_hours (int i) = Inr (3600 * int i)"
      using div2 by (simp add: timedelta_hours_def)
    have "\<not> start + 3600 * int i < 86400"
      unfolding start_def using fit_lower[OF fit, of "int i"] by simp
    moreover have "\<not> 315537983999 < start + 3600 * int i"
      unfolding start_def using fit_upper[OF assms(1) i] by simp
    ultimately have "datetime_add start (3600 * int i) = Inr (start + 3600 * int i)"
      by (simp add: datetime_add_def datetime_min_def datetime_max_def)
    then show ?thesis using td by simp
  qed
  have ts: "comprehension
                     (map (\<lambda>i. case timedelta_hours (int i) of
                                  Inl e \<Rightarrow> Inl e
                                | Inr step \<Rightarrow> datetime_add start step) [0..<nat H])
      = Inr (map (\<lambda>i. start + 3600 * int i) [0..<nat H])"
    by (rule comprehension_all) (rule step)
  have ne: "nat H \<noteq> Suc 0" using big by simp
  have rows: "map (\<lambda>(i, ts, p). (i, \<lparr>DateTime = ts, SpotPrice = p, Source = Some ''synthetic''\<rparr>))
          (zip [0..<length (map (\<lambda>i. start + 3600 * int i) [0..<nat H])]
            (zip (map (\<lambda>i. start + 3600 * int i) [0..<nat H])
              (map (\<lambda>(b, t, n). b + t + n)
                (zip (map (\<lambda>i. 60 + 5 * sin (2 * pi * real i / 24)) [0..<nat H])
                  (zip (np_linspace (- 2) 2 (nat H))
                    (rng_normal lib (default_rng env (Some d)) 0 1.5 (nat H)))))))
        = synthetic_rows lib d h"
    unfolding synthetic_rows_def H_def[symmetric] start_def
    by (rule nth_equalityI)
       (simp_all add: length_np_linspace rng_normal_def np_linspace_def default_rng_def ne)
  show ?thesis
    unfolding generate_synthetic_frame_def Let_def H_def[symmetric]
    using reach st ts rows by simp
qed

lemma default_rng_seeded: "default_rng env (Some s) = SeededRng s"
  by (simp add: default_rng_def)


lemma generate_synthetic_frame_prices:
  assumes "generate_synthetic_frame lib env d h = Inr f"
  shows "map (\<lambda>(i, r). SpotPrice r) f
     = map (\<lambda>i. 60 + 5 * sin (2 * pi * real i / 24)
                + (- 2 + real i * (4 / real (nat (max (h + 48) 72) - 1)))
                + 1.5 * std_normal lib (SeededRng d) i) [0..<nat (max (h + 48) 72)]"
proof -
  let ?hours = "max (h + 48) 72"
  have big: "72 \<le> ?hours" by (rule max.cobounded2)
  have ne: "nat ?hours \<noteq> Suc 0" using big by simp
  from assms obtain ts where
    len: "length ts = nat ?hours" and
    f: "f = map (\<lambda>(i, ts, p). (i, \<lparr>DateTime = ts, SpotPrice = p, Source = Some ''synthetic''\<rparr>))
          (zip [0..<length ts]
            (zip ts
              (map (\<lambda>(b, t, n). b + t + n)
                (zip (map (\<lambda>i. 60 + 5 * sin (2 * pi * real i / 24)) [0..<nat ?hours])
                  (zip (np_linspace (- 2) 2 (nat ?hours))
                    (rng_normal lib (default_rng env (Some d)) 0 1.5 (nat ?hours)))))))"
    by (auto simp add: generate_synthetic_frame_def Let_def split: sum.splits
        dest: comprehension_length)
  show ?thesis
    unfolding f
    by (rule nth_equalityI)
       (simp_all add: len length_np_linspace rng_normal_def np_linspace_def default_rng_def ne)
qed

lemma length_synthetic_rows: "length (synthetic_rows lib d h) = nat (max (h + 48) 72)"
  by (simp add: synthetic_rows_def)

lemma synthetic_timestamps:
  "map (\<lambda>(i, r). DateTime r) (synthetic_rows lib d h)
     = map (\<lambda>k. 86400 * d - 3600 * (max (h + 48) 72 - 1) + 3600 * int k) [0..<nat (max (h + 48) 72)]"
  by (simp add: synthetic_rows_def)

lemma synthetic_last_timestamp:
  "DateTime (snd (last (synthetic_rows lib d h))) = 86400 * d"
proof -
  let ?n = "nat (max (h + 48) 72)"
  have big: "72 \<le> max (h + 48) 72" by (rule max.cobounded2)
  then have ne: "[0..<?n] \<noteq> []" by simp
  have "last [0..<?n] = ?n - 1" using ne by (metis last_upt upt_eq_Nil_conv not_less)
  moreover have "int (?n - 1) = max (h + 48) 72 - 1" using big by arith
  ultimately show ?thesis using ne by (simp add: synthetic_rows_def last_map)
qed








section \<open>Properties of the orchestrator\<close>









lemma load_price_frame_no_key:
  "\<not> truthy (nordpool_api_key env) \<Longrightarrow>
     load_price_frame lib env h
       = map_sum id (\<lambda>f. (f, ''synthetic'')) (generate_synthetic_frame lib env (today env) h)"
  by (simp add: load_price_frame_def Let_def)


lemma load_price_frame_source:
  "load_price_frame lib env h = Inr (frame0, src) \<Longrightarrow> src \<in> {''api'', ''synthetic''}"
  by (auto simp add: load_price_frame_def Let_def map_sum_def split: if_splits sum.splits)









lemma generate_synthetic_frame_out_of_range:
  assumes "\<not> max (h + 48) 72 - 1 \<le> 24 * (d - 1)"
  shows "\<exists>msg. generate_synthetic_frame lib env d h = Inl (OverflowError msg)"
proof -
  define H where "H = max (h + 48) 72"
  have far: "24 * (d - 1) + 1 \<le> H - 1" using assms unfolding H_def by simp
  show ?thesis
  proof (cases "timedelta_hours (H - 1)")
    case (Inl e)
    then have "generate_synthetic_frame lib env d h = Inl e"
      unfolding generate_synthetic_frame_def Let_def H_def[symmetric] by simp
    then show ?thesis using timedelta_hours_error[OF Inl] by auto
  next
    case (Inr reach)
    then have reach: "reach = 3600 * (H - 1)"
      by (auto simp add: timedelta_hours_def split: if_splits)
    have "3600 * (24 * (d - 1) + 1) \<le> 3600 * (H - 1)" using far by (rule mult_left_mono) simp
    then have "86400 * d - 82800 \<le> 3600 * (H - 1)" by (simp add: algebra_simps)
    then have "86400 * d + - (3600 * (H - 1)) < 86400" by simp
    then have "datetime_sub (86400 * d) reach = Inl (OverflowError ''date value out of range'')"
      unfolding reach by (simp add: datetime_sub_def datetime_add_def datetime_min_def)
    then have "generate_synthetic_frame lib env d h = Inl (OverflowError ''date value out of range'')"
      unfolding generate_synthetic_frame_def Let_def H_def[symmetric] using Inr by simp
    then show ?thesis by blast
  qed
qed

lemma env_facts:
  "\<not> truthy (nordpool_api_key env0)" "today env0 = 739000"
  "\<not> truthy (nordpool_api_key env_render_fails)" "today env_render_fails = 739000"
  "post_message env_render_fails = None"
  "render_forecast_plot env_render_fails = Inl (ExternalError ''No space left on device'')"
  "\<not> truthy (nordpool_api_key env_sinks_fail)" "today env_sinks_fail = 739000"
  "post_message env_sinks_fail = None"
  "render_forecast_plot env_sinks_fail = Inr ''/repo/reports/plots/forecast_20240501_050000.png''"
  "has_upload_file env_sinks_fail" "truthy (slack_token env_sinks_fail)"
  "truthy (notion_token env_sinks_fail)" "truthy (notion_database_id env_sinks_fail)"
  "truthy (github_token env_sinks_fail)" "truthy (github_repo env_sinks_fail)"
  by (simp_all add: env_render_fails_def env_sinks_fail_def env_configured_def env0_def truthy_def)


lemma load_synthetic_out_of_range:
  assumes "\<not> truthy (nordpool_api_key env)" and "today env = 739000"
  shows "load_price_frame lib env 17735930 = Inl (OverflowError ''date value out of range'')"
  using assms
  by (simp add: load_price_frame_no_key generate_synthetic_frame_def timedelta_hours_def
      datetime_sub_def datetime_add_def datetime_min_def)

text \<open>
  C6 (as the code has it). When no live-feed credential is configured (the key is absent
  or empty) and the window of \<open>max(horizon + 48, 72)\<close> hours that ends at the start of
  today does not begin before 0001-01-01 00:00, the data source resolver returns the
  synthetic frame tagged \<open>"synthetic"\<close>: its length is \<open>max(horizon + 48, 72)\<close>, which
  is at least \<open>horizon\<close>, and its timestamps are hourly (3600 seconds apart) and end at the
  target date's start of day. For a horizon whose window would begin earlier, the resolver
  raises \<open>OverflowError\<close> instead.
\<close>

theorem load_price_frame_without_credential:
  assumes "\<not> truthy (nordpool_api_key env)" and "today env \<le> 3652059"
  shows "if max (horizon + 48) 72 - 1 \<le> 24 * (today env - 1)
         then \<exists>frame. load_price_frame lib env horizon = Inr (frame, ''synthetic'')
           \<and> int (length frame) = max (horizon + 48) 72
           \<and> horizon \<le> int (length frame)
           \<and> map (\<lambda>(i, r). DateTime r) frame
               = map (\<lambda>k. 86400 * today env - 3600 * (max (horizon + 48) 72 - 1) + 3600 * int k)
                   [0..<nat (max (horizon + 48) 72)]
           \<and> DateTime (snd (last frame)) = 86400 * today env
         else \<exists>msg. load_price_frame lib env horizon = Inl (OverflowError msg)"
proof (cases "max (horizon + 48) 72 - 1 \<le> 24 * (today env - 1)")
  case True
  have g: "generate_synthetic_frame lib env (today env) horizon
            = Inr (synthetic_rows lib (today env) horizon)"
    using assms(2) True by (rule generate_synthetic_frame_in_range)
  have "int (nat (max (horizon + 48) 72)) = max (horizon + 48) 72" by arith
  then have "int (length (synthetic_rows lib (today env) horizon)) = max (horizon + 48) 72"
    by (simp only: length_synthetic_rows)
  moreover have "horizon \<le> max (horizon + 48) 72" by simp
  ultimately show ?thesis
    using True assms(1) g
    by (simp add: load_price_frame_no_key synthetic_timestamps synthetic_last_timestamp)
next
  case False
  from generate_synthetic_frame_out_of_range[OF False, of lib env]
  show ?thesis using False assms(1) by (auto simp add: load_price_frame_no_key)
qed

theorem load_price_frame_without_credential_witness:
  "(\<exists>frame. load_price_frame lib0 env0 24 = Inr (frame, ''synthetic'')
      \<and> int (length frame) = 72
      \<and> DateTime (snd (last frame)) = 86400 * 739000)
   \<and> (\<exists>msg. load_price_frame lib0 env0 17735930 = Inl (OverflowError msg))"
proof -
  have t: "today env0 \<le> 3652059" using env_facts(2) by simp
  show ?thesis
    using load_price_frame_without_credential [OF env_facts(1) t, of 24 lib0]
      load_price_frame_without_credential [OF env_facts(1) t, of 17735930 lib0]
      env_facts(2)
    by auto
qed

text \<open>
  C6 as stated fails for a horizon so large that the window leaves the range of
  \<open>datetime\<close>: today being ordinal 739000, horizon 17735930 makes
  \<open>datetime.combine(...) - timedelta(hours=hours - 1)\<close> raise, and the resolver returns
  no series.
\<close>

theorem load_price_frame_overflow:
  "load_price_frame lib0 env0 17735930 = Inl (OverflowError ''date value out of range'')
   \<and> nordpool_api_key env0 = None"
  using load_synthetic_out_of_range[OF env_facts(1) env_facts(2), of lib0]
  by (simp add: env0_def)

text \<open>
  C8. Synthetic generation is deterministic: whatever the environment of the call (the
  entropy of the operating system, the clock, the settings), the generator does the same
  for the same target date and horizon, returning the same timestamps and prices or
  raising the same error; the noise of a returned frame is drawn from a generator seeded
  with the target date's ordinal.
\<close>

theorem generate_synthetic_frame_deterministic:
  "generate_synthetic_frame lib env1 target_date horizon
     = generate_synthetic_frame lib env2 target_date horizon
   \<and> (\<forall>f. generate_synthetic_frame lib env1 target_date horizon = Inr f \<longrightarrow>
        map (\<lambda>(i, r). SpotPrice r) f
          = map (\<lambda>i. 60 + 5 * sin (2 * pi * real i / 24)
                + (- 2 + real i * (4 / real (nat (max (horizon + 48) 72) - 1)))
                + 1.5 * std_normal lib (SeededRng target_date) i) [0..<nat (max (horizon + 48) 72)])"
proof
  show "generate_synthetic_frame lib env1 target_date horizon
     = generate_synthetic_frame lib env2 target_date horizon"
    unfolding generate_synthetic_frame_def default_rng_seeded by (rule refl)
next
  show "\<forall>f. generate_synthetic_frame lib env1 target_date horizon = Inr f \<longrightarrow>
        map (\<lambda>(i, r). SpotPrice r) f
          = map (\<lambda>i. 60 + 5 * sin (2 * pi * real i / 24)
                + (- 2 + real i * (4 / real (nat (max (horizon + 48) 72) - 1)))
                + 1.5 * std_normal lib (SeededRng target_date) i) [0..<nat (max (horizon + 48) 72)]"
    using generate_synthetic_frame_prices by blast
qed

theorem generate_synthetic_frame_deterministic_witness:
  "generate_synthetic_frame lib0 env0 739000 24
     = generate_synthetic_frame lib0 (env0\<lparr>os_entropy := 2, today := 5, slack_token := Some ''t''\<rparr>) 739000 24
   \<and> (\<exists>f. generate_synthetic_frame lib0 env0 739000 24 = Inr f
        \<and> map (\<lambda>(i, r). SpotPrice r) f
          = map (\<lambda>i. 60 + 5 * sin (2 * pi * real i / 24)
                + (- 2 + real i * (4 / real (nat (max (24 + 48) 72) - 1)))
                + 1.5 * std_normal lib0 (SeededRng 739000) i) [0..<nat (max (24 + 48) 72)])"
proof -
  have ok: "generate_synthetic_frame lib0 env0 739000 24 = Inr (synthetic_rows lib0 739000 24)"
    by (rule generate_synthetic_frame_in_range) simp_all
  show ?thesis
    using generate_synthetic_frame_deterministic [of lib0 env0 739000 24
        "env0\<lparr>os_entropy := 2, today := 5, slack_token := Some ''t''\<rparr>"] ok
    by blast
qed




end
